theory Spec2Isabelle
  imports Complex_Main "HOL-Library.Sublist" "HOL-Library.AList"
begin

section \<open>Python values that the script handles\<close>

text \<open>
  Everything \<^verbatim>\<open>idoklad2fakturoid.py\<close> touches is what \<^verbatim>\<open>json.load\<close>,
  \<^verbatim>\<open>resp.json()\<close> and \<^verbatim>\<open>pickle.load\<close> hand to it: \<^verbatim>\<open>None\<close>, booleans, integers,
  floats, strings, lists and dictionaries with string keys. A dictionary is an association
  list in insertion order; lookup takes the first entry of a key. A finite float is carried
  by its exact rational value, which is how Python compares it with an integer; the
  non-standard literals \<^verbatim>\<open>NaN\<close> and \<^verbatim>\<open>Infinity\<close> and the sign of zero are left out.
\<close>

datatype json =
    JNull
  | JBool bool
  | JInt int
  | JFloat rat
  | JStr string
  | JArr "json list"
  | JObj "(string \<times> json) list"

text \<open>
  The exceptions of a run. \<open>Exception args\<close> is the plain \<^verbatim>\<open>Exception(*args)\<close> that the
  script raises itself; \<open>IOError\<close> is the class the cache loader catches silently;
  \<open>OtherError\<close> is any further library exception, named by its class.
\<close>

datatype error =
    IOError
  | KeyError string
  | TypeError
  | OtherError string
  | Exception "json list"

definition ebind :: "error + 'a \<Rightarrow> ('a \<Rightarrow> error + 'b) \<Rightarrow> error + 'b" where
  "ebind m f = (case m of Inl e \<Rightarrow> Inl e | Inr x \<Rightarrow> f x)"

subsection \<open>The operator \<^verbatim>\<open>==\<close>\<close>

text \<open>
  Booleans are integers in Python (\<^verbatim>\<open>False == 0\<close>), and numbers compare by value across
  \<^verbatim>\<open>bool\<close>, \<^verbatim>\<open>int\<close> and \<^verbatim>\<open>float\<close>. Lists compare element by element, dictionaries
  key by key whatever the order of insertion.
\<close>

fun num_val :: "json \<Rightarrow> rat option" where
  "num_val (JBool b) = Some (if b then 1 else 0)"
| "num_val (JInt i) = Some (of_int i)"
| "num_val (JFloat q) = Some q"
| "num_val _ = None"

fun py_eq :: "json \<Rightarrow> json \<Rightarrow> bool"
  and py_eq_list :: "json list \<Rightarrow> json list \<Rightarrow> bool"
  and py_eq_items :: "(string \<times> json) list \<Rightarrow> (string \<times> json) list \<Rightarrow> bool"
where
  "py_eq JNull y = (y = JNull)"
| "py_eq (JBool b) y = (num_val y = Some (if b then 1 else 0))"
| "py_eq (JInt i) y = (num_val y = Some (of_int i))"
| "py_eq (JFloat q) y = (num_val y = Some q)"
| "py_eq (JStr s) y = (y = JStr s)"
| "py_eq (JArr xs) y = (case y of JArr ys \<Rightarrow> py_eq_list xs ys | _ \<Rightarrow> False)"
| "py_eq (JObj a) y =
     (case y of JObj b \<Rightarrow> set (map fst a) = set (map fst b) \<and> py_eq_items a b | _ \<Rightarrow> False)"
| "py_eq_list [] ys = (ys = [])"
| "py_eq_list (x # xs) ys =
     (case ys of [] \<Rightarrow> False | y # ys' \<Rightarrow> py_eq x y \<and> py_eq_list xs ys')"
| "py_eq_items [] b = True"
| "py_eq_items ((k, v) # a) b =
     ((case map_of b k of None \<Rightarrow> False | Some v' \<Rightarrow> py_eq v v') \<and> py_eq_items a b)"

subsection \<open>Subscripting, iteration, membership, item assignment\<close>

text \<open>
  \<^verbatim>\<open>v[k]\<close> with a string \<open>k\<close>: a dictionary answers or raises \<^verbatim>\<open>KeyError\<close>; a list or a
  string wants integer indices and anything else is not subscriptable, both \<^verbatim>\<open>TypeError\<close>.
\<close>

definition py_getitem :: "json \<Rightarrow> string \<Rightarrow> error + json" where
  "py_getitem v k =
     (case v of
        JObj kvs \<Rightarrow> (case map_of kvs k of None \<Rightarrow> Inl (KeyError k) | Some x \<Rightarrow> Inr x)
      | _ \<Rightarrow> Inl TypeError)"

text \<open>
  \<^verbatim>\<open>for x in v\<close>: a list yields its elements, a dictionary its keys, a string its
  characters; the other values are not iterable.
\<close>

definition py_iter :: "json \<Rightarrow> error + json list" where
  "py_iter v =
     (case v of
        JArr xs \<Rightarrow> Inr xs
      | JObj kvs \<Rightarrow> Inr (map (\<lambda>kv. JStr (fst kv)) kvs)
      | JStr s \<Rightarrow> Inr (map (\<lambda>c. JStr [c]) s)
      | _ \<Rightarrow> Inl TypeError)"

fun contains_str :: "string \<Rightarrow> string \<Rightarrow> bool" where
  "contains_str k [] = (k = [])"
| "contains_str k (c # cs) = (prefix k (c # cs) \<or> contains_str k cs)"

text \<open>\<^verbatim>\<open>k in v\<close> with a string \<open>k\<close>: key of a dictionary, element of a list, substring of a string.\<close>

definition py_contains :: "json \<Rightarrow> string \<Rightarrow> error + bool" where
  "py_contains v k =
     (case v of
        JObj kvs \<Rightarrow> Inr (k \<in> set (map fst kvs))
      | JArr xs \<Rightarrow> Inr (list_ex (\<lambda>x. py_eq x (JStr k)) xs)
      | JStr s \<Rightarrow> Inr (contains_str k s)
      | _ \<Rightarrow> Inl TypeError)"

text \<open>
  \<^verbatim>\<open>v[k] = x\<close> with a string \<open>k\<close>: a dictionary replaces the value in place or appends the
  new key; nothing else accepts it.
\<close>

definition py_setitem :: "json \<Rightarrow> string \<Rightarrow> json \<Rightarrow> error + json" where
  "py_setitem v k x =
     (case v of JObj kvs \<Rightarrow> Inr (JObj (AList.update k x kvs)) | _ \<Rightarrow> Inl TypeError)"

subsection \<open>\<^verbatim>\<open>str.join\<close>\<close>

fun join_strings :: "string \<Rightarrow> json list \<Rightarrow> error + string" where
  "join_strings sep [] = Inr []"
| "join_strings sep [JStr s] = Inr s"
| "join_strings sep (JStr s # x # xs) =
     ebind (join_strings sep (x # xs)) (\<lambda>r. Inr (s @ sep @ r))"
| "join_strings sep _ = Inl TypeError"

text \<open>
  A call \<^verbatim>\<open>sep.join(a1, ..., an)\<close> with the list of its positional arguments. The method
  takes exactly one argument, an iterable of strings; any other number of arguments is a
  \<^verbatim>\<open>TypeError\<close> raised by the call itself, after the arguments have been evaluated.
\<close>

definition str_join :: "string \<Rightarrow> json list \<Rightarrow> error + json" where
  "str_join sep args =
     (case args of
        [it] \<Rightarrow> ebind (py_iter it) (\<lambda>xs. ebind (join_strings sep xs) (\<lambda>s. Inr (JStr s)))
      | _ \<Rightarrow> Inl TypeError)"

section \<open>Module constants\<close>

definition CACHE_FILE :: string where
  "CACHE_FILE = ''idoklad2fakturoid.cache''"

definition MESSAGES :: json where
  "MESSAGES = JObj
     [(''subject_not_found'',
         JStr ''Subject with reg. no. %s not found in Fakturoid. You need to create it first.''),
      (''request_failed'',
         JStr (''%s %s failed with code %s'' @ [CHR 0x0A, CHR 0x0A] @ ''%s'')),
      (''unknown_payment_method'', JStr ''Unknown iDoklad payment method code: %s'')]"

section \<open>The invoice converter\<close>

text \<open>
  \<^verbatim>\<open>make_fakturoid_payment_method\<close>, \<^verbatim>\<open>find_fakturoid_subject_id\<close>, \<^verbatim>\<open>convert_invoice\<close>
  and \<^verbatim>\<open>convert_invoice_lines\<close>. Each \<^verbatim>\<open>raise\<close> and each failing subscript is an \<open>Inl\<close>;
  the entries of a dictionary display are evaluated top to bottom, so the first failing
  entry decides the exception.
\<close>

definition make_fakturoid_payment_method :: "json \<Rightarrow> error + json" where
  "make_fakturoid_payment_method idoklad_code =
     (if py_eq idoklad_code (JStr ''B'') then Inr (JStr ''bank'')
      else ebind (py_getitem MESSAGES ''unknown_payment_method'')
             (\<lambda>m. Inl (Exception [m, idoklad_code])))"

fun find_subject_loop :: "json list \<Rightarrow> json \<Rightarrow> error + json" where
  "find_subject_loop [] registration_no =
     ebind (py_getitem MESSAGES ''subject_not_found'')
       (\<lambda>m. Inl (Exception [m, registration_no]))"
| "find_subject_loop (subject # rest) registration_no =
     ebind (py_getitem subject ''registration_no'')
       (\<lambda>rn. if py_eq rn registration_no then py_getitem subject ''id''
             else find_subject_loop rest registration_no)"

definition find_fakturoid_subject_id :: "json \<Rightarrow> json \<Rightarrow> error + json" where
  "find_fakturoid_subject_id fakturoid_subjects registration_no =
     ebind (py_iter fakturoid_subjects) (\<lambda>ss. find_subject_loop ss registration_no)"

text \<open>
  One pass of the loop body of \<^verbatim>\<open>convert_invoice_lines\<close>: \<open>None\<close> is \<^verbatim>\<open>continue\<close>,
  \<open>Some line\<close> is the appended dictionary. The \<^verbatim>\<open>and\<close> short-circuits: \<^verbatim>\<open>TotalPrice\<close>
  is read only when the code is \<^verbatim>\<open>"ZaokPol"\<close>.
\<close>

definition convert_line :: "json \<Rightarrow> error + json option" where
  "convert_line item =
     ebind (py_getitem item ''Code'') (\<lambda>code.
     ebind (if py_eq code (JStr ''ZaokPol'')
            then ebind (py_getitem item ''TotalPrice'') (\<lambda>total. Inr (py_eq total (JInt 0)))
            else Inr False) (\<lambda>skip.
     if skip then Inr None
     else
       ebind (py_getitem item ''Name'') (\<lambda>name.
       ebind (py_getitem item ''Amount'') (\<lambda>amount.
       ebind (py_getitem item ''UnitPrice'') (\<lambda>unit_price.
       ebind (py_getitem item ''VatRate'') (\<lambda>vat_rate.
       Inr (Some (JObj
         [(''name'', name),
          (''quantity'', amount),
          (''unit_price'', unit_price),
          (''vat_rate'', vat_rate)]))))))))"

fun convert_lines_loop :: "json list \<Rightarrow> json list \<Rightarrow> error + json list" where
  "convert_lines_loop [] lines = Inr lines"
| "convert_lines_loop (item # rest) lines =
     ebind (convert_line item) (\<lambda>r.
       case r of
         None \<Rightarrow> convert_lines_loop rest lines
       | Some line \<Rightarrow> convert_lines_loop rest (lines @ [line]))"

definition convert_invoice_lines :: "json \<Rightarrow> error + json list" where
  "convert_invoice_lines idoklad_invoice =
     ebind (py_getitem idoklad_invoice ''IssuedInvoiceItems'') (\<lambda>items.
     ebind (py_iter items) (\<lambda>its. convert_lines_loop its []))"

text \<open>
  \<^verbatim>\<open>convert_invoice\<close>. The entry \<^verbatim>\<open>'bank_account'\<close> calls \<^verbatim>\<open>"/".join\<close> with the account
  number and the bank code as two positional arguments, which is what \<open>str_join\<close> receives
  here.
\<close>

definition convert_invoice :: "json \<Rightarrow> json \<Rightarrow> error + json" where
  "convert_invoice idoklad_invoice fakturoid_subjects =
     ebind (py_getitem idoklad_invoice ''DocumentNumber'') (\<lambda>number.
     ebind (py_getitem idoklad_invoice ''VariableSymbol'') (\<lambda>variable_symbol.
     ebind (py_getitem idoklad_invoice ''Purchaser'') (\<lambda>purchaser.
     ebind (py_getitem purchaser ''IdentificationNumber'') (\<lambda>registration_no.
     ebind (find_fakturoid_subject_id fakturoid_subjects registration_no) (\<lambda>subject_id.
     ebind (py_getitem idoklad_invoice ''OrderNumber'') (\<lambda>order_number.
     ebind (py_getitem idoklad_invoice ''DateOfIssue'') (\<lambda>issued_on.
     ebind (py_getitem idoklad_invoice ''DateOfTaxing'') (\<lambda>taxable_fulfillment_due.
     ebind (py_getitem idoklad_invoice ''Maturity'') (\<lambda>due.
     ebind (py_getitem idoklad_invoice ''ItemsTextPrefix'') (\<lambda>note.
     ebind (py_getitem idoklad_invoice ''ItemsTextSuffix'') (\<lambda>footer_note.
     ebind (py_getitem idoklad_invoice ''Note'') (\<lambda>private_note.
     ebind (py_getitem idoklad_invoice ''MyCompanyDocumentAddress'') (\<lambda>address1.
     ebind (py_getitem address1 ''AccountNumber'') (\<lambda>account_number.
     ebind (py_getitem idoklad_invoice ''MyCompanyDocumentAddress'') (\<lambda>address2.
     ebind (py_getitem address2 ''BankNumberCode'') (\<lambda>bank_number_code.
     ebind (str_join ''/'' [account_number, bank_number_code]) (\<lambda>bank_account.
     ebind (py_getitem idoklad_invoice ''MyCompanyDocumentAddress'') (\<lambda>address3.
     ebind (py_getitem address3 ''Iban'') (\<lambda>iban.
     ebind (py_getitem idoklad_invoice ''MyCompanyDocumentAddress'') (\<lambda>address4.
     ebind (py_getitem address4 ''Swift'') (\<lambda>swift_bic.
     ebind (py_getitem idoklad_invoice ''PaymentOption'') (\<lambda>payment_option.
     ebind (py_getitem payment_option ''Code'') (\<lambda>payment_code.
     ebind (make_fakturoid_payment_method payment_code) (\<lambda>payment_method.
     ebind (py_getitem idoklad_invoice ''Currency'') (\<lambda>currency_obj.
     ebind (py_getitem currency_obj ''Code'') (\<lambda>currency.
     ebind (py_getitem idoklad_invoice ''ExchangeRate'') (\<lambda>exchange_rate.
     ebind (convert_invoice_lines idoklad_invoice) (\<lambda>lines.
     Inr (JObj
       [(''number'', number),
        (''variable_symbol'', variable_symbol),
        (''subject_id'', subject_id),
        (''order_number'', order_number),
        (''issued_on'', issued_on),
        (''taxable_fulfillment_due'', taxable_fulfillment_due),
        (''due'', due),
        (''note'', note),
        (''footer_note'', footer_note),
        (''private_note'', private_note),
        (''bank_account'', bank_account),
        (''iban'', iban),
        (''swift_bic'', swift_bic),
        (''payment_method'', payment_method),
        (''currency'', currency),
        (''exchange_rate'', exchange_rate),
        (''language'', JStr ''en''),
        (''lines'', JArr lines)])))))))))))))))))))))))))))))"

section \<open>The world outside the script\<close>

text \<open>
  A run reads and writes the cache file, reads the invoice export, talks to the Fakturoid
  service and prints. The world holds the content of the cache file (\<open>None\<close> when
  opening it for reading raises \<^verbatim>\<open>IOError\<close>: there is no such file, or it cannot be
  opened), whether the file can be opened for writing, and the chronological trace of what
  the run has done so far. The libraries and the remote service are parameters:
  \<^verbatim>\<open>pickle\<close> as a pair of functions on byte strings, \<^verbatim>\<open>json.load(open(path))\<close> as a
  function of the path, and the service as a function of the requests sent before and the
  request at hand, answering with a response or with an exception of \<^verbatim>\<open>requests\<close>.
\<close>

datatype request = GET string | POST string json

record response =
  status_code :: int
  text_body :: string
  json_body :: "error + json"

datatype parg = V json | E error

datatype event = Print "parg list" | Http request | Write string string

record world =
  cache_file :: "string option"
  cache_writable :: bool
  trace :: "event list"

record env =
  pickle_load :: "string \<Rightarrow> error + json"
  pickle_dump :: "json \<Rightarrow> string"
  json_load_file :: "string \<Rightarrow> error + json"
  server :: "request list \<Rightarrow> request \<Rightarrow> error + response"

record args =
  fakturoid_account_name :: string
  fakturoid_email :: string
  fakturoid_api_key :: string
  idoklad_invoices_json :: string

definition emit :: "event \<Rightarrow> world \<Rightarrow> world" where
  "emit e w = w\<lparr>trace := trace w @ [e]\<rparr>"

fun requests_of :: "event list \<Rightarrow> request list" where
  "requests_of [] = []"
| "requests_of (Http rq # evs) = rq # requests_of evs"
| "requests_of (_ # evs) = requests_of evs"

definition http :: "env \<Rightarrow> request \<Rightarrow> world \<Rightarrow> (error + response) \<times> world" where
  "http en rq w = (server en (requests_of (trace w)) rq, emit (Http rq) w)"

section \<open>The remote client\<close>

record FakturoidAPI =
  session_auth :: "string \<times> string"
  session_user_agent :: string
  api_url :: string

definition FakturoidAPI_init :: "string \<Rightarrow> string \<Rightarrow> string \<Rightarrow> FakturoidAPI" where
  "FakturoidAPI_init account_name email api_key =
     \<lparr>session_auth = (email, api_key),
      session_user_agent = ''iDoklad2Fakturoid (dan.keder@gmail.com)'',
      api_url = ''https://app.fakturoid.cz/api/v2/accounts/'' @ account_name\<rparr>"

definition api_get :: "env \<Rightarrow> FakturoidAPI \<Rightarrow> string \<Rightarrow> world \<Rightarrow> (error + response) \<times> world" where
  "api_get en api path w = http en (GET (api_url api @ path)) w"

definition api_post ::
  "env \<Rightarrow> FakturoidAPI \<Rightarrow> string \<Rightarrow> json \<Rightarrow> world \<Rightarrow> (error + response) \<times> world" where
  "api_post en api path payload w = http en (POST (api_url api @ path) payload) w"

definition request_failed :: "string \<Rightarrow> string \<Rightarrow> response \<Rightarrow> error + json" where
  "request_failed method path resp =
     ebind (py_getitem MESSAGES ''request_failed'')
       (\<lambda>m. Inl (Exception
          [m, JStr method, JStr path, JInt (status_code resp), JStr (text_body resp)]))"

definition get_subjects :: "env \<Rightarrow> FakturoidAPI \<Rightarrow> world \<Rightarrow> (error + json) \<times> world" where
  "get_subjects en api w =
     (case api_get en api ''/subjects.json'' w of
        (Inl e, w') \<Rightarrow> (Inl e, w')
      | (Inr resp, w') \<Rightarrow>
          (if status_code resp = 200 then json_body resp
           else request_failed ''GET'' ''/subjects.json'' resp, w'))"

definition create_invoice ::
  "env \<Rightarrow> FakturoidAPI \<Rightarrow> json \<Rightarrow> world \<Rightarrow> (error + json) \<times> world" where
  "create_invoice en api invoice w =
     (case api_post en api ''/invoices.json'' invoice w of
        (Inl e, w') \<Rightarrow> (Inl e, w')
      | (Inr resp, w') \<Rightarrow>
          (if status_code resp = 201 then json_body resp
           else request_failed ''POST'' ''/invoices.json'' resp, w'))"

section \<open>The batch driver\<close>

text \<open>
  The body under \<^verbatim>\<open>if __name__ == "__main__"\<close>, one definition per commented block of
  the script. An \<open>Inl\<close> in the result is an exception that reached the top level: the run
  stops there and the world is the one it has reached.
\<close>

definition open_rb :: "world \<Rightarrow> error + string" where
  "open_rb w = (case cache_file w of None \<Rightarrow> Inl IOError | Some bytes \<Rightarrow> Inr bytes)"

text \<open>
  The \<^verbatim>\<open>try\<close> block around \<^verbatim>\<open>pickle.load(open(CACHE_FILE, 'rb'))\<close>: \<^verbatim>\<open>except IOError\<close>
  first, \<^verbatim>\<open>except Exception\<close> second. The warning is printed with the exception as a
  second argument of \<^verbatim>\<open>print\<close>.
\<close>

definition load_cache :: "env \<Rightarrow> world \<Rightarrow> json \<times> world" where
  "load_cache en w =
     (let w1 = emit (Print [V (JStr ''Loading Fakturoid API cache'')]) w in
      case ebind (open_rb w1) (pickle_load en) of
        Inr cache \<Rightarrow> (cache, w1)
      | Inl e \<Rightarrow>
          if e = IOError then (JObj [], w1)
          else (JObj [],
                emit (Print [V (JStr ''WARNING: Cache load failed: %s. Continuing anyway.''),
                             E e]) w1))"

text \<open>
  \<^verbatim>\<open>pickle.dump(cache, open(CACHE_FILE, 'wb'))\<close> stands outside any \<^verbatim>\<open>try\<close>: when the file
  cannot be opened for writing the \<^verbatim>\<open>IOError\<close> of \<^verbatim>\<open>open\<close> ends the run and nothing has
  been written.
\<close>

definition save_cache :: "env \<Rightarrow> json \<Rightarrow> world \<Rightarrow> (error + unit) \<times> world" where
  "save_cache en cache w =
     (if cache_writable w
      then (Inr (),
            emit (Write CACHE_FILE (pickle_dump en cache))
              (w\<lparr>cache_file := Some (pickle_dump en cache)\<rparr>))
      else (Inl IOError, w))"

definition fetch_subjects ::
  "env \<Rightarrow> FakturoidAPI \<Rightarrow> json \<Rightarrow> world \<Rightarrow> (error + json) \<times> world" where
  "fetch_subjects en fakturoid cache w =
     (case py_contains cache ''fakturoid_subjects'' of
        Inl e \<Rightarrow> (Inl e, w)
      | Inr True \<Rightarrow> (py_getitem cache ''fakturoid_subjects'', w)
      | Inr False \<Rightarrow>
          (case get_subjects en fakturoid
                  (emit (Print [V (JStr ''Loading subjects from Fakturoid API'')]) w) of
             (Inl e, w') \<Rightarrow> (Inl e, w')
           | (Inr subjects, w') \<Rightarrow>
               (case py_setitem cache ''fakturoid_subjects'' subjects of
                  Inl e \<Rightarrow> (Inl e, w')
                | Inr cache' \<Rightarrow>
                    (case save_cache en cache' w' of
                       (Inl e, w'') \<Rightarrow> (Inl e, w'')
                     | (Inr u, w'') \<Rightarrow> (py_getitem cache' ''fakturoid_subjects'', w'')))))"

fun create_invoices ::
  "env \<Rightarrow> FakturoidAPI \<Rightarrow> json \<Rightarrow> json list \<Rightarrow> world \<Rightarrow> (error + unit) \<times> world" where
  "create_invoices en fakturoid fakturoid_subjects [] w = (Inr (), w)"
| "create_invoices en fakturoid fakturoid_subjects (idoklad_invoice # rest) w =
     (case py_getitem idoklad_invoice ''DocumentNumber'' of
        Inl e \<Rightarrow> (Inl e, w)
      | Inr document_number \<Rightarrow>
          (let w1 = emit (Print [V (JStr ''Processing iDoklad invoice''), V document_number]) w in
           case convert_invoice idoklad_invoice fakturoid_subjects of
             Inl e \<Rightarrow> (Inl e, w1)
           | Inr converted \<Rightarrow>
               (case create_invoice en fakturoid converted w1 of
                  (Inl e, w2) \<Rightarrow> (Inl e, w2)
                | (Inr fakturoid_invoice, w2) \<Rightarrow>
                    (case py_getitem fakturoid_invoice ''number'' of
                       Inl e \<Rightarrow> (Inl e, w2)
                     | Inr number \<Rightarrow>
                         create_invoices en fakturoid fakturoid_subjects rest
                           (emit (Print [V (JStr ''Crated Fakturoid invoice''), V number]) w2)))))"

text \<open>Everything after the cache has been loaded.\<close>

definition run_with_cache :: "env \<Rightarrow> args \<Rightarrow> json \<Rightarrow> world \<Rightarrow> (error + unit) \<times> world" where
  "run_with_cache en a cache w =
     (let fakturoid = FakturoidAPI_init (fakturoid_account_name a) (fakturoid_email a)
                        (fakturoid_api_key a) in
      case json_load_file en (idoklad_invoices_json a) of
        Inl e \<Rightarrow> (Inl e, w)
      | Inr idoklad_invoices \<Rightarrow>
          (case fetch_subjects en fakturoid cache w of
             (Inl e, w1) \<Rightarrow> (Inl e, w1)
           | (Inr fakturoid_subjects, w1) \<Rightarrow>
               (case ebind (py_getitem idoklad_invoices ''Data'') py_iter of
                  Inl e \<Rightarrow> (Inl e, w1)
                | Inr invoices \<Rightarrow>
                    (case create_invoices en fakturoid fakturoid_subjects invoices w1 of
                       (Inl e, w2) \<Rightarrow> (Inl e, w2)
                     | (Inr u, w2) \<Rightarrow> (Inr (), emit (Print [V (JStr ''Done.'')]) w2)))))"

definition main :: "env \<Rightarrow> args \<Rightarrow> world \<Rightarrow> (error + unit) \<times> world" where
  "main en a w = (case load_cache en w of (cache, w1) \<Rightarrow> run_with_cache en a cache w1)"

section \<open>Vocabulary of the properties\<close>

text \<open>
  The two exceptions the converter raises on purpose, under the names the design document
  gives them: both are a plain \<^verbatim>\<open>Exception\<close> whose first argument is the entry of
  \<^verbatim>\<open>MESSAGES\<close> and whose second argument is the offending value.
\<close>

definition SubjectNotFound :: "json \<Rightarrow> error" where
  "SubjectNotFound registration_no = Exception
     [JStr ''Subject with reg. no. %s not found in Fakturoid. You need to create it first.'',
      registration_no]"

definition UnknownPaymentMethod :: "json \<Rightarrow> error" where
  "UnknownPaymentMethod code = Exception
     [JStr ''Unknown iDoklad payment method code: %s'', code]"

text \<open>
  The shape of the input: a source invoice is a dictionary with every key that
  \<^verbatim>\<open>convert_invoice\<close> and \<^verbatim>\<open>convert_invoice_lines\<close> read, a subject is a dictionary with
  \<^verbatim>\<open>id\<close> and \<^verbatim>\<open>registration_no\<close>. \<open>field\<close> reads a key that is known to be there.
\<close>

definition has_key :: "json \<Rightarrow> string \<Rightarrow> bool" where
  "has_key v k = (case py_getitem v k of Inr x \<Rightarrow> True | Inl e \<Rightarrow> False)"

definition field :: "json \<Rightarrow> string \<Rightarrow> json" where
  "field v k = (case py_getitem v k of Inr x \<Rightarrow> x | Inl e \<Rightarrow> JNull)"

definition line_item :: "json \<Rightarrow> bool" where
  "line_item item =
     list_all (has_key item)
       [''Code'', ''TotalPrice'', ''Name'', ''Amount'', ''UnitPrice'', ''VatRate'']"

definition source_invoice :: "json \<Rightarrow> bool" where
  "source_invoice invoice =
     (list_all (has_key invoice)
        [''DocumentNumber'', ''VariableSymbol'', ''Purchaser'', ''OrderNumber'',
         ''DateOfIssue'', ''DateOfTaxing'', ''Maturity'', ''ItemsTextPrefix'',
         ''ItemsTextSuffix'', ''Note'', ''MyCompanyDocumentAddress'', ''PaymentOption'',
         ''Currency'', ''ExchangeRate'', ''IssuedInvoiceItems''] \<and>
      has_key (field invoice ''Purchaser'') ''IdentificationNumber'' \<and>
      list_all (has_key (field invoice ''MyCompanyDocumentAddress''))
        [''AccountNumber'', ''BankNumberCode'', ''Iban'', ''Swift''] \<and>
      has_key (field invoice ''PaymentOption'') ''Code'' \<and>
      has_key (field invoice ''Currency'') ''Code'' \<and>
      (case field invoice ''IssuedInvoiceItems'' of
         JArr items \<Rightarrow> list_all line_item items
       | _ \<Rightarrow> False))"

definition subject :: "json \<Rightarrow> bool" where
  "subject s = list_all (has_key s) [''id'', ''registration_no'']"

definition purchaser_registration_no :: "json \<Rightarrow> json" where
  "purchaser_registration_no invoice =
     field (field invoice ''Purchaser'') ''IdentificationNumber''"

definition payment_code :: "json \<Rightarrow> json" where
  "payment_code invoice = field (field invoice ''PaymentOption'') ''Code''"

definition matches :: "json \<Rightarrow> json \<Rightarrow> bool" where
  "matches registration_no s = py_eq (field s ''registration_no'') registration_no"

text \<open>
  The line-item rule in the words of the design document: drop an item whose code is
  \<^verbatim>\<open>"ZaokPol"\<close> and whose total price is zero, keep every other item, in order, as a
  dictionary of name, quantity, unit price and VAT rate.
\<close>

definition is_rounding_item :: "json \<Rightarrow> bool" where
  "is_rounding_item item =
     (py_eq (field item ''Code'') (JStr ''ZaokPol'') \<and>
      py_eq (field item ''TotalPrice'') (JInt 0))"

definition spec_line :: "json \<Rightarrow> json" where
  "spec_line item = JObj
     [(''name'', field item ''Name''),
      (''quantity'', field item ''Amount''),
      (''unit_price'', field item ''UnitPrice''),
      (''vat_rate'', field item ''VatRate'')]"

definition spec_convert_invoice_lines :: "json list \<Rightarrow> json list" where
  "spec_convert_invoice_lines items =
     map spec_line (filter (\<lambda>item. \<not> is_rounding_item item) items)"





text \<open>
  Modelled from the spec: \<^verbatim>\<open>pickle.dump\<close> and \<^verbatim>\<open>pickle.load\<close>, code of the Python library
  that is not part of the script. The design document asks of the cache file format only
  that it round-trips: a table written by \<^verbatim>\<open>save\<close> is recovered with the same structure by
  \<^verbatim>\<open>load\<close>. This is that law for one table, on the two functions the environment supplies.
\<close>

definition pickle_round_trip :: "env \<Rightarrow> json \<Rightarrow> bool" where
  "pickle_round_trip en table = (pickle_load en (pickle_dump en table) = Inr table)"

section \<open>A concrete run\<close>

text \<open>
  An export of two invoices for the account \<^verbatim>\<open>acme\<close>. Three subjects are known to the
  service, two of them under the same registration number. The service answers the
  subjects request with this list and echoes a posted invoice with status 201.
\<close>

definition example_items :: "json list" where
  "example_items =
     [JObj [(''Code'', JNull), (''TotalPrice'', JInt 0), (''Name'', JStr ''Consulting''),
            (''Amount'', JInt 0), (''UnitPrice'', JInt 1500), (''VatRate'', JInt 21)],
      JObj [(''Code'', JStr ''ZaokPol''), (''TotalPrice'', JInt 0), (''Name'', JStr ''Rounding''),
            (''Amount'', JInt 1), (''UnitPrice'', JInt 0), (''VatRate'', JInt 0)],
      JObj [(''Code'', JStr ''ZaokPol''), (''TotalPrice'', JFloat (1 / 2)),
            (''Name'', JStr ''Rounding''), (''Amount'', JInt 1),
            (''UnitPrice'', JFloat (1 / 2)), (''VatRate'', JInt 0)]]"

definition example_invoice :: "string \<Rightarrow> string \<Rightarrow> string \<Rightarrow> json" where
  "example_invoice number registration_no code = JObj
     [(''DocumentNumber'', JStr number),
      (''VariableSymbol'', JStr number),
      (''Purchaser'', JObj [(''IdentificationNumber'', JStr registration_no)]),
      (''OrderNumber'', JNull),
      (''DateOfIssue'', JStr ''2016-03-01''),
      (''DateOfTaxing'', JStr ''2016-03-01''),
      (''Maturity'', JInt 14),
      (''ItemsTextPrefix'', JStr []),
      (''ItemsTextSuffix'', JStr []),
      (''Note'', JStr []),
      (''MyCompanyDocumentAddress'', JObj
         [(''AccountNumber'', JStr ''2600123456''),
          (''BankNumberCode'', JStr ''2010''),
          (''Iban'', JStr ''CZ6020100000002600123456''),
          (''Swift'', JStr ''FIOBCZPP'')]),
      (''PaymentOption'', JObj [(''Code'', JStr code)]),
      (''Currency'', JObj [(''Code'', JStr ''CZK'')]),
      (''ExchangeRate'', JInt 1),
      (''IssuedInvoiceItems'', JArr example_items)]"

definition example_subjects :: "json list" where
  "example_subjects =
     [JObj [(''id'', JInt 11), (''registration_no'', JStr ''61989592'')],
      JObj [(''id'', JInt 12), (''registration_no'', JStr ''27082440'')],
      JObj [(''id'', JInt 13), (''registration_no'', JStr ''27082440'')]]"

definition example_export :: json where
  "example_export = JObj [(''Data'', JArr
     [example_invoice ''20160001'' ''27082440'' ''B'',
      example_invoice ''20160002'' ''00000000'' ''B''])]"

definition example_env :: env where
  "example_env =
     \<lparr>pickle_load = (\<lambda>bytes.
        if bytes = ''subjects'' then Inr (JObj [(''fakturoid_subjects'', JArr example_subjects)])
        else Inl (OtherError ''UnpicklingError'')),
      pickle_dump = (\<lambda>cache. ''subjects''),
      json_load_file = (\<lambda>path.
        if path = ''invoices.json'' then Inr example_export else Inl IOError),
      server = (\<lambda>sent rq.
        case rq of
          GET url \<Rightarrow>
            Inr \<lparr>status_code = 200, text_body = [], json_body = Inr (JArr example_subjects)\<rparr>
        | POST url payload \<Rightarrow>
            Inr \<lparr>status_code = 201, text_body = [], json_body = Inr payload\<rparr>)\<rparr>"

definition example_args :: args where
  "example_args =
     \<lparr>fakturoid_account_name = ''acme'',
      fakturoid_email = ''billing@acme.example'',
      fakturoid_api_key = ''secret'',
      idoklad_invoices_json = ''invoices.json''\<rparr>"

definition warm_world :: world where
  "warm_world = \<lparr>cache_file = Some ''subjects'', cache_writable = True, trace = []\<rparr>"

definition cold_world :: world where
  "cold_world = \<lparr>cache_file = None, cache_writable = True, trace = []\<rparr>"


definition loaded_world :: "string option \<Rightarrow> world" where
  "loaded_world file =
     \<lparr>cache_file = file, cache_writable = True,
      trace = [Print [V (JStr ''Loading Fakturoid API cache'')]]\<rparr>"


definition warm_final_world :: world where
  "warm_final_world =
     \<lparr>cache_file = Some ''subjects'', cache_writable = True,
      trace = [Print [V (JStr ''Loading Fakturoid API cache'')],
               Print [V (JStr ''Processing iDoklad invoice''), V (JStr ''20160001'')]]\<rparr>"




section \<open>Basic facts\<close>

lemma ebind_Inl [simp]: "ebind (Inl e) f = Inl e"
  by (simp add: ebind_def)

lemma ebind_Inr [simp]: "ebind (Inr x) f = f x"
  by (simp add: ebind_def)

lemma ebind_eq_Inr: "ebind m f = Inr r \<longleftrightarrow> (\<exists>x. m = Inr x \<and> f x = Inr r)"
  by (cases m) simp_all

text \<open>Only the string itself is \<^verbatim>\<open>==\<close> to a string; \<^verbatim>\<open>0\<close>, \<^verbatim>\<open>False\<close> and \<^verbatim>\<open>0.0\<close> are \<^verbatim>\<open>== 0\<close>.\<close>

lemma py_eq_JStr: "py_eq x (JStr s) \<longleftrightarrow> x = JStr s"
  by (cases x) (auto split: json.splits)

lemma py_eq_zero: "py_eq x (JInt 0) \<longleftrightarrow> x = JInt 0 \<or> x = JBool False \<or> x = JFloat 0"
  by (cases x) (auto split: json.splits)

lemma getitem_field: "has_key v k \<Longrightarrow> py_getitem v k = Inr (field v k)"
  by (auto simp: has_key_def field_def split: sum.splits)


lemma msg_subject_not_found:
  "ebind (py_getitem MESSAGES ''subject_not_found'') (\<lambda>m. Inl (Exception [m, r]))
     = Inl (SubjectNotFound r)"
  by (simp add: MESSAGES_def py_getitem_def SubjectNotFound_def)

lemma msg_unknown_payment_method:
  "ebind (py_getitem MESSAGES ''unknown_payment_method'') (\<lambda>m. Inl (Exception [m, c]))
     = Inl (UnknownPaymentMethod c)"
  by (simp add: MESSAGES_def py_getitem_def UnknownPaymentMethod_def)

lemma str_join_two: "str_join sep [a, b] = Inl TypeError"
  by (simp add: str_join_def)

lemma requests_of_append: "requests_of (xs @ ys) = requests_of xs @ requests_of ys"
  by (induction xs rule: requests_of.induct) simp_all

subsection \<open>The concrete run is well-formed\<close>

lemma line_item_example: "list_all line_item example_items"
  by (simp add: example_items_def line_item_def has_key_def py_getitem_def)

lemma items_example:
  "py_getitem (example_invoice n r c) ''IssuedInvoiceItems'' = Inr (JArr example_items)"
  by (simp add: example_invoice_def py_getitem_def)

lemma source_invoice_example: "source_invoice (example_invoice n r c)"
  by (simp add: source_invoice_def example_invoice_def has_key_def field_def py_getitem_def
      line_item_example)

lemma subject_example: "list_all subject example_subjects"
  by (simp add: example_subjects_def subject_def has_key_def py_getitem_def)

lemma registration_no_example: "purchaser_registration_no (example_invoice n r c) = JStr r"
  by (simp add: purchaser_registration_no_def example_invoice_def field_def py_getitem_def)

lemma payment_code_example: "payment_code (example_invoice n r c) = JStr c"
  by (simp add: payment_code_def example_invoice_def field_def py_getitem_def)

lemma number_example:
  "py_getitem (example_invoice n r c) ''DocumentNumber'' = Inr (JStr n)"
  by (simp add: example_invoice_def py_getitem_def)

lemma match_example: "list_ex (matches (JStr ''27082440'')) example_subjects"
  by (simp add: example_subjects_def matches_def field_def py_getitem_def)

lemma no_match_example: "\<not> list_ex (matches (JStr ''00000000'')) example_subjects"
  by (simp add: example_subjects_def matches_def field_def py_getitem_def)

section \<open>Properties of the converter\<close>

subsection \<open>Payment method\<close>

text \<open>
  C5. The payment-method translation maps the source code \<^verbatim>\<open>"B"\<close> to \<^verbatim>\<open>"bank"\<close> and
  fails for every other code with the unknown-payment-method exception that carries the
  code.
\<close>

theorem payment_method_translation:
  "make_fakturoid_payment_method code =
     (if code = JStr ''B'' then Inr (JStr ''bank'') else Inl (UnknownPaymentMethod code))"
  by (simp add: make_fakturoid_payment_method_def py_eq_JStr msg_unknown_payment_method)

theorem payment_method_translation_witness:
  "make_fakturoid_payment_method (JStr ''B'') = Inr (JStr ''bank'') \<and>
   make_fakturoid_payment_method (JStr ''C'') = Inl (UnknownPaymentMethod (JStr ''C'')) \<and>
   make_fakturoid_payment_method JNull = Inl (UnknownPaymentMethod JNull)"
  using payment_method_translation [of "JStr ''B''"] payment_method_translation [of "JStr ''C''"]
    payment_method_translation [of JNull]
  by simp

subsection \<open>Line items\<close>

lemma convert_line_spec:
  "line_item item \<Longrightarrow>
   convert_line item = Inr (if is_rounding_item item then None else Some (spec_line item))"
  by (simp add: line_item_def convert_line_def getitem_field is_rounding_item_def spec_line_def)

lemma convert_lines_loop_spec:
  "list_all line_item items \<Longrightarrow>
   convert_lines_loop items lines = Inr (lines @ spec_convert_invoice_lines items)"
  by (induction items arbitrary: lines)
     (simp_all add: convert_line_spec spec_convert_invoice_lines_def)

text \<open>
  C2. For a source invoice whose \<^verbatim>\<open>IssuedInvoiceItems\<close> is a list of line items,
  \<^verbatim>\<open>convert_invoice_lines\<close> returns the items in their original order, each as a
  dictionary of name, quantity, unit price and VAT rate, and leaves out exactly the items
  whose code is \<^verbatim>\<open>"ZaokPol"\<close> and whose total price is zero.
\<close>

theorem convert_invoice_lines_filter:
  assumes "py_getitem invoice ''IssuedInvoiceItems'' = Inr (JArr items)"
    and "list_all line_item items"
  shows "convert_invoice_lines invoice = Inr (spec_convert_invoice_lines items)"
  using assms by (simp add: convert_invoice_lines_def py_iter_def convert_lines_loop_spec)

theorem convert_invoice_lines_filter_witness:
  "py_getitem (example_invoice ''20160001'' ''27082440'' ''B'') ''IssuedInvoiceItems''
     = Inr (JArr example_items) \<and>
   list_all line_item example_items \<and>
   convert_invoice_lines (example_invoice ''20160001'' ''27082440'' ''B'') =
     Inr [JObj [(''name'', JStr ''Consulting''), (''quantity'', JInt 0),
                (''unit_price'', JInt 1500), (''vat_rate'', JInt 21)],
          JObj [(''name'', JStr ''Rounding''), (''quantity'', JInt 1),
                (''unit_price'', JFloat (1 / 2)), (''vat_rate'', JInt 0)]]"
  using convert_invoice_lines_filter [OF items_example line_item_example,
      of "''20160001''" "''27082440''" "''B''"]
    items_example line_item_example
  by (simp add: spec_convert_invoice_lines_def is_rounding_item_def spec_line_def
      example_items_def field_def py_getitem_def)

subsection \<open>Subject lookup\<close>

lemma find_subject_loop_first_match:
  "list_all subject ss \<Longrightarrow>
   find_subject_loop ss r =
     (case find (matches r) ss of
        Some s \<Rightarrow> Inr (field s ''id'')
      | None \<Rightarrow> Inl (SubjectNotFound r))"
  by (induction ss) (simp_all add: msg_subject_not_found subject_def getitem_field matches_def)

text \<open>
  The lookup on its own: the identifier of the first subject, in list order, whose
  registration number is \<^verbatim>\<open>==\<close> to the one sought, and the subject-not-found exception
  when there is none.
\<close>

lemma find_fakturoid_subject_id_first_match:
  "list_all subject ss \<Longrightarrow>
   find_fakturoid_subject_id (JArr ss) r =
     (case find (matches r) ss of
        Some s \<Rightarrow> Inr (field s ''id'')
      | None \<Rightarrow> Inl (SubjectNotFound r))"
  by (simp add: find_fakturoid_subject_id_def py_iter_def find_subject_loop_first_match)

subsection \<open>The bank account\<close>

text \<open>
  Whatever the invoice and the subjects, \<^verbatim>\<open>convert_invoice\<close> returns no record: an
  evaluation that gets as far as the entry \<^verbatim>\<open>'bank_account'\<close> stops there.
\<close>

lemma convert_invoice_never_returns: "convert_invoice invoice subjects \<noteq> Inr r"
  by (simp add: convert_invoice_def ebind_eq_Inr str_join_two)

lemma convert_invoice_match:
  assumes "source_invoice invoice"
    and "list_all subject ss"
    and "list_ex (matches (purchaser_registration_no invoice)) ss"
  shows "convert_invoice invoice (JArr ss) = Inl TypeError"
proof -
  from assms(3) have "find (matches (purchaser_registration_no invoice)) ss \<noteq> None"
    by (auto simp: list_ex_iff find_None_iff)
  then obtain s where "find (matches (purchaser_registration_no invoice)) ss = Some s"
    by auto
  with assms(1,2) show ?thesis
    by (simp add: convert_invoice_def source_invoice_def getitem_field str_join_two
        find_fakturoid_subject_id_first_match purchaser_registration_no_def)
qed

lemma convert_invoice_no_match:
  assumes "source_invoice invoice"
    and "list_all subject ss"
    and "\<not> list_ex (matches (purchaser_registration_no invoice)) ss"
  shows "convert_invoice invoice (JArr ss) =
           Inl (SubjectNotFound (purchaser_registration_no invoice))"
proof -
  from assms(3) have "find (matches (purchaser_registration_no invoice)) ss = None"
    by (auto simp: list_ex_iff find_None_iff)
  with assms(1,2) show ?thesis
    by (simp add: convert_invoice_def source_invoice_def getitem_field
        find_fakturoid_subject_id_first_match purchaser_registration_no_def)
qed

lemma convert_example_match:
  "convert_invoice (example_invoice n ''27082440'' c) (JArr example_subjects) = Inl TypeError"
  using convert_invoice_match [OF source_invoice_example subject_example,
      of n "''27082440''" c] match_example
  by (simp add: registration_no_example)

text \<open>
  C3. The entry \<^verbatim>\<open>'bank_account'\<close> hands the account number and the bank code to the join
  as two separate arguments, so for every source invoice whose purchaser registration
  number matches a cached subject \<^verbatim>\<open>convert_invoice\<close> fails with \<^verbatim>\<open>TypeError\<close>.
\<close>

theorem convert_invoice_join_fails:
  assumes "source_invoice invoice"
    and "list_all subject ss"
    and "list_ex (matches (purchaser_registration_no invoice)) ss"
  shows "str_join ''/'' [field (field invoice ''MyCompanyDocumentAddress'') ''AccountNumber'',
                          field (field invoice ''MyCompanyDocumentAddress'') ''BankNumberCode'']
           = Inl TypeError \<and>
         convert_invoice invoice (JArr ss) = Inl TypeError"
  using convert_invoice_match [OF assms] by (simp add: str_join_two)

theorem convert_invoice_join_fails_witness:
  "source_invoice (example_invoice ''20160001'' ''27082440'' ''B'') \<and>
   list_all subject example_subjects \<and>
   list_ex (matches (JStr ''27082440'')) example_subjects \<and>
   convert_invoice (example_invoice ''20160001'' ''27082440'' ''B'') (JArr example_subjects)
     = Inl TypeError"
  using convert_invoice_join_fails [OF source_invoice_example subject_example,
      of "''20160001''" "''27082440''" "''B''"]
    source_invoice_example [of "''20160001''" "''27082440''" "''B''"]
    subject_example match_example
  by (simp add: registration_no_example)

text \<open>
  C1. For a source invoice whose purchaser registration number occurs in the subjects
  list, the destination record should carry the identifier of the first matching subject.
  On the concrete run the lookup finds that identifier, 12 and not 13, but
  \<^verbatim>\<open>convert_invoice\<close> ends in \<^verbatim>\<open>TypeError\<close> and produces no record.
\<close>

theorem convert_invoice_first_match_example:
  "find_fakturoid_subject_id (JArr example_subjects) (JStr ''27082440'') = Inr (JInt 12) \<and>
   convert_invoice (example_invoice ''20160001'' ''27082440'' ''B'') (JArr example_subjects)
     = Inl TypeError"
proof
  show "find_fakturoid_subject_id (JArr example_subjects) (JStr ''27082440'') = Inr (JInt 12)"
    by (simp add: find_fakturoid_subject_id_def example_subjects_def py_iter_def py_getitem_def)
  show "convert_invoice (example_invoice ''20160001'' ''27082440'' ''B'')
          (JArr example_subjects) = Inl TypeError"
    by (rule convert_example_match)
qed

section \<open>Properties of the driver\<close>

subsection \<open>A failing conversion stops the loop\<close>

lemma create_invoices_abort:
  assumes "py_getitem invoice ''DocumentNumber'' = Inr number"
    and "convert_invoice invoice subjects = Inl e"
  shows "create_invoices en fakturoid subjects (invoice # rest) w =
           (Inl e, emit (Print [V (JStr ''Processing iDoklad invoice''), V number]) w)"
  using assms by simp

text \<open>
  C4. For every source invoice whose purchaser registration number matches no subject of
  the cached list, \<^verbatim>\<open>convert_invoice\<close> fails with the subject-not-found exception that
  carries that registration number, and the loop that reaches this invoice ends with the
  same exception without sending any request to the service.
\<close>

theorem subject_not_found_no_creation:
  assumes "source_invoice invoice"
    and "list_all subject ss"
    and "\<not> list_ex (matches (purchaser_registration_no invoice)) ss"
  shows "convert_invoice invoice (JArr ss) =
           Inl (SubjectNotFound (purchaser_registration_no invoice)) \<and>
         fst (create_invoices en fakturoid (JArr ss) (invoice # rest) w) =
           Inl (SubjectNotFound (purchaser_registration_no invoice)) \<and>
         requests_of (trace (snd (create_invoices en fakturoid (JArr ss) (invoice # rest) w))) =
           requests_of (trace w)"
proof -
  have conv: "convert_invoice invoice (JArr ss) =
      Inl (SubjectNotFound (purchaser_registration_no invoice))"
    by (rule convert_invoice_no_match [OF assms])
  from assms(1) have "py_getitem invoice ''DocumentNumber'' = Inr (field invoice ''DocumentNumber'')"
    by (simp add: source_invoice_def getitem_field)
  from create_invoices_abort [OF this conv] conv show ?thesis
    by (simp add: emit_def requests_of_append)
qed

theorem subject_not_found_no_creation_witness:
  "source_invoice (example_invoice ''20160002'' ''00000000'' ''B'') \<and>
   list_all subject example_subjects \<and>
   \<not> list_ex (matches (JStr ''00000000'')) example_subjects \<and>
   convert_invoice (example_invoice ''20160002'' ''00000000'' ''B'') (JArr example_subjects) =
     Inl (SubjectNotFound (JStr ''00000000'')) \<and>
   fst (create_invoices example_env (FakturoidAPI_init ''acme'' ''billing@acme.example'' ''secret'')
          (JArr example_subjects)
          [example_invoice ''20160002'' ''00000000'' ''B'',
           example_invoice ''20160001'' ''27082440'' ''B''] warm_world) =
     Inl (SubjectNotFound (JStr ''00000000'')) \<and>
   requests_of (trace (snd (create_invoices example_env
          (FakturoidAPI_init ''acme'' ''billing@acme.example'' ''secret'')
          (JArr example_subjects)
          [example_invoice ''20160002'' ''00000000'' ''B'',
           example_invoice ''20160001'' ''27082440'' ''B''] warm_world))) = []"
  using subject_not_found_no_creation [OF source_invoice_example subject_example,
      of "''20160002''" "''00000000''" "''B''" example_env
         "FakturoidAPI_init ''acme'' ''billing@acme.example'' ''secret''"
         "[example_invoice ''20160001'' ''27082440'' ''B'']" warm_world]
    source_invoice_example [of "''20160002''" "''00000000''" "''B''"]
    subject_example no_match_example
  by (simp add: registration_no_example warm_world_def)

text \<open>
  C10. The subject lookup comes before the payment-method translation: for every source
  invoice whose purchaser registration number matches no cached subject and whose payment
  code is not \<^verbatim>\<open>"B"\<close>, the translation of that code alone would fail as an unknown payment
  method, yet \<^verbatim>\<open>convert_invoice\<close> fails with the subject-not-found exception.
\<close>

theorem subject_lookup_before_payment_method:
  assumes "source_invoice invoice"
    and "list_all subject ss"
    and "\<not> list_ex (matches (purchaser_registration_no invoice)) ss"
    and "payment_code invoice \<noteq> JStr ''B''"
  shows "make_fakturoid_payment_method (payment_code invoice) =
           Inl (UnknownPaymentMethod (payment_code invoice)) \<and>
         convert_invoice invoice (JArr ss) =
           Inl (SubjectNotFound (purchaser_registration_no invoice)) \<and>
         convert_invoice invoice (JArr ss) \<noteq> Inl (UnknownPaymentMethod (payment_code invoice))"
  using assms(4) convert_invoice_no_match [OF assms(1-3)]
  by (simp add: make_fakturoid_payment_method_def py_eq_JStr msg_unknown_payment_method
      SubjectNotFound_def UnknownPaymentMethod_def)

theorem subject_lookup_before_payment_method_witness:
  "source_invoice (example_invoice ''20160003'' ''00000000'' ''C'') \<and>
   list_all subject example_subjects \<and>
   \<not> list_ex (matches (JStr ''00000000'')) example_subjects \<and>
   JStr ''C'' \<noteq> JStr ''B'' \<and>
   make_fakturoid_payment_method (JStr ''C'') = Inl (UnknownPaymentMethod (JStr ''C'')) \<and>
   convert_invoice (example_invoice ''20160003'' ''00000000'' ''C'') (JArr example_subjects) =
     Inl (SubjectNotFound (JStr ''00000000''))"
  using subject_lookup_before_payment_method [OF source_invoice_example subject_example,
      of "''20160003''" "''00000000''" "''C''"]
    source_invoice_example [of "''20160003''" "''00000000''" "''C''"]
    subject_example no_match_example
  by (simp add: registration_no_example payment_code_example)

subsection \<open>What each phase does to the world\<close>


















subsection \<open>A run sees the world only through the requests sent so far\<close>







subsection \<open>The concrete runs, evaluated\<close>


lemma load_warm:
  "load_cache example_env warm_world =
     (JObj [(''fakturoid_subjects'', JArr example_subjects)], loaded_world (Some ''subjects''))"
  by (simp add: load_cache_def warm_world_def loaded_world_def example_env_def open_rb_def
      emit_def)



lemma fetch_subjects_cached:
  assumes "py_contains cache ''fakturoid_subjects'' = Inr True"
  shows "fetch_subjects en fakturoid cache w = (py_getitem cache ''fakturoid_subjects'', w)"
  using assms by (simp add: fetch_subjects_def)

lemma fetch_warm:
  "fetch_subjects example_env fakturoid
     (JObj [(''fakturoid_subjects'', JArr example_subjects)]) w =
   (Inr (JArr example_subjects), w)"
  by (simp add: fetch_subjects_cached py_contains_def py_getitem_def)





lemma run_with_cache_abort:
  assumes "json_load_file en (idoklad_invoices_json a) = Inr idoklad_invoices"
    and "fetch_subjects en
           (FakturoidAPI_init (fakturoid_account_name a) (fakturoid_email a) (fakturoid_api_key a))
           cache w = (Inr fakturoid_subjects, w1)"
    and "py_getitem idoklad_invoices ''Data'' = Inr (JArr invoices)"
    and "create_invoices en
           (FakturoidAPI_init (fakturoid_account_name a) (fakturoid_email a) (fakturoid_api_key a))
           fakturoid_subjects invoices w1 = (Inl e, w2)"
  shows "run_with_cache en a cache w = (Inl e, w2)"
  using assms by (simp add: run_with_cache_def py_iter_def)


lemma input_example:
  "json_load_file example_env (idoklad_invoices_json example_args) = Inr example_export"
  by (simp add: example_env_def example_args_def)

lemma data_example:
  "py_getitem example_export ''Data'' =
     Inr (JArr [example_invoice ''20160001'' ''27082440'' ''B'',
                example_invoice ''20160002'' ''00000000'' ''B''])"
  by (simp add: example_export_def py_getitem_def)

lemma loop_example:
  "create_invoices example_env fakturoid (JArr example_subjects)
     [example_invoice ''20160001'' ''27082440'' ''B'',
      example_invoice ''20160002'' ''00000000'' ''B''] w =
   (Inl TypeError,
    emit (Print [V (JStr ''Processing iDoklad invoice''), V (JStr ''20160001'')]) w)"
  by (rule create_invoices_abort [OF number_example convert_example_match])

lemma main_warm: "main example_env example_args warm_world = (Inl TypeError, warm_final_world)"
proof -
  have "run_with_cache example_env example_args
          (JObj [(''fakturoid_subjects'', JArr example_subjects)]) (loaded_world (Some ''subjects''))
        = (Inl TypeError,
           emit (Print [V (JStr ''Processing iDoklad invoice''), V (JStr ''20160001'')])
             (loaded_world (Some ''subjects'')))"
    by (rule run_with_cache_abort [OF input_example fetch_warm data_example loop_example])
  then show ?thesis
    by (simp add: main_def load_warm emit_def loaded_world_def warm_final_world_def)
qed



subsection \<open>The subjects cache\<close>




subsection \<open>Loading the cache\<close>




subsection \<open>Saving and loading the cache\<close>

text \<open>
  C8. For every cache table that \<^verbatim>\<open>pickle\<close> round-trips, saving the table to a cache file
  that can be opened for writing succeeds, and loading the cache in any world that holds
  the file so written, a later run among them, gives the same table back.
\<close>

theorem cache_round_trip:
  assumes "pickle_round_trip en table"
    and "cache_writable w"
  shows "\<exists>w'. save_cache en table w = (Inr (), w') \<and>
           cache_file w' = Some (pickle_dump en table) \<and>
           (\<forall>v. cache_file v = cache_file w' \<longrightarrow> fst (load_cache en v) = table)"
  using assms
  by (simp add: save_cache_def pickle_round_trip_def load_cache_def open_rb_def emit_def)

theorem cache_round_trip_witness:
  "pickle_round_trip example_env (JObj [(''fakturoid_subjects'', JArr example_subjects)]) \<and>
   cache_writable cold_world \<and>
   (\<exists>w'. save_cache example_env (JObj [(''fakturoid_subjects'', JArr example_subjects)])
            cold_world = (Inr (), w') \<and>
         cache_file w' =
           Some (pickle_dump example_env (JObj [(''fakturoid_subjects'', JArr example_subjects)])) \<and>
         (\<forall>v. cache_file v = cache_file w' \<longrightarrow>
            fst (load_cache example_env v) =
              JObj [(''fakturoid_subjects'', JArr example_subjects)]))"
proof -
  have law: "pickle_round_trip example_env
      (JObj [(''fakturoid_subjects'', JArr example_subjects)])"
    by (simp add: pickle_round_trip_def example_env_def)
  have writable: "cache_writable cold_world"
    by (simp add: cold_world_def)
  show ?thesis
    by (intro conjI law writable cache_round_trip [OF law writable])
qed

subsection \<open>Two invoices, the second without a subject\<close>

text \<open>
  C6. The driver takes the invoices in input order and the first exception ends the run.
  For the export of two invoices, the first with a cached subject and the second without,
  one invoice should be created before the run ends with the subject-not-found exception.
  The run ends at the first invoice with \<^verbatim>\<open>TypeError\<close> and has sent no request.
\<close>

theorem main_two_invoices:
  "main example_env example_args warm_world = (Inl TypeError, warm_final_world) \<and>
   requests_of (trace warm_final_world) = []"
  by (simp add: main_warm warm_final_world_def)

end
